theory Spec2Isabelle
  imports Main
begin

section \<open>Chat with MySQL: the two-stage prompting pipeline of app.py\<close>

text \<open>
  The program is one Streamlit script, \<^verbatim>\<open>app.py\<close>. It talks to three external
  collaborators: the database (\<^verbatim>\<open>SQLDatabase.from_uri\<close>, \<^verbatim>\<open>get_table_info\<close>,
  \<^verbatim>\<open>run\<close>), the language model (\<^verbatim>\<open>ChatGroq\<close>) and Streamlit's session state.
  The embedding makes every effect explicit:
  \<^item> the session state and the state of the outside world are one record, passed in and
    returned (\<open>world\<close>);
  \<^item> an exception is the value \<open>Inl\<close> of a sum; the source has no \<^verbatim>\<open>try\<close> anywhere,
    so every \<open>Inl\<close> is passed on to the caller unchanged;
  \<^item> every call that leaves the program is appended to a log (\<open>trace\<close>) with its outcome,
    so that "is invoked", "is submitted" and "exactly once" are statements about the log;
  \<^item> the collaborators themselves are parameters (\<open>env\<close>): nothing is assumed about what
    the database or the model answer.
\<close>

subsection \<open>Data\<close>

text \<open>\<^verbatim>\<open>AIMessage(content=...)\<close> and \<^verbatim>\<open>HumanMessage(content=...)\<close>.\<close>

datatype message = AIMessage string | HumanMessage string

text \<open>
  Exceptions. \<open>TypeError\<close> and \<open>AttributeError\<close> are raised by Python and Streamlit
  themselves; \<open>ExternalError\<close> stands for whatever the database driver or the model
  client raises (the source names none of their classes), with its message. A
  \<open>TypeError\<close> carries Python's message. An \<open>AttributeError\<close> carries the name of the
  key that \<^verbatim>\<open>st.session_state\<close> does not have: Streamlit's message is a sentence
  around that name, worded differently from one version to the next.
\<close>

datatype exn = TypeError string | AttributeError string | ExternalError string

text \<open>
  \<^verbatim>\<open>ChatGroq(model="mixtral-8x7b-32768", temperature=0)\<close>: the arguments the source
  passes. The temperature is the integer literal \<^verbatim>\<open>0\<close>.
\<close>

record llm_config =
  model :: string
  temperature :: int

text \<open>
  One entry of the log per call that leaves the program, with what came back.
  \<open>'h\<close> is the type of a database handle (a \<^verbatim>\<open>SQLDatabase\<close> object).
\<close>

datatype 'h event =
    EvFromUri string
  | EvGetTableInfo 'h "exn + string"
  | EvRun 'h string "exn + string"
  | EvInvoke llm_config string "exn + string"

text \<open>
  The collaborators. \<open>'x\<close> is the state of the outside world (the database server's
  contents, the model service); each call may read and change it.
  \<^item> \<open>db_from_uri\<close>: \<^verbatim>\<open>SQLDatabase.from_uri(db_uri)\<close>;
  \<^item> \<open>db_get_table_info\<close>: \<^verbatim>\<open>database.get_table_info()\<close>;
  \<^item> \<open>db_run\<close>: \<^verbatim>\<open>database.run(sql)\<close>;
  \<^item> \<open>llm_invoke\<close>: the prompt text sent to the chat model built with the given
    configuration, and the content of its reply (\<^verbatim>\<open>prompt | llm | StrOutputParser()\<close>);
  \<^item> \<open>str_of_history\<close>: Python's \<^verbatim>\<open>str\<close> of the list of messages, which is what the
    template's \<^verbatim>\<open>{chat_history}\<close> is replaced by;
  \<^item> \<open>schema_first\<close>: \<^verbatim>\<open>.assign(schema=..., response=...)\<close> hands its two steps to a
    thread pool, so the order in which they reach the database is the scheduler's
    choice; this is that choice.
\<close>

record ('h, 'x) env =
  db_from_uri :: "string \<Rightarrow> 'x \<Rightarrow> (exn + 'h) \<times> 'x"
  db_get_table_info :: "'h \<Rightarrow> 'x \<Rightarrow> (exn + string) \<times> 'x"
  db_run :: "'h \<Rightarrow> string \<Rightarrow> 'x \<Rightarrow> (exn + string) \<times> 'x"
  llm_invoke :: "llm_config \<Rightarrow> string \<Rightarrow> 'x \<Rightarrow> (exn + string) \<times> 'x"
  str_of_history :: "message list \<Rightarrow> string"
  schema_first :: "'x \<Rightarrow> bool"

text \<open>
  \<open>ss_chat_history\<close> and \<open>ss_db\<close> are \<^verbatim>\<open>st.session_state.chat_history\<close> and
  \<^verbatim>\<open>st.session_state.db\<close>; \<open>None\<close> is a key that has not been set.
\<close>

record ('h, 'x) world =
  ss_chat_history :: "message list option"
  ss_db :: "'h option"
  ext :: 'x
  trace :: "'h event list"

text \<open>What one run of the script receives from its widgets.\<close>

record ui_input =
  ui_host :: string
  ui_port :: string
  ui_user :: string
  ui_password :: string
  ui_database :: string
  ui_connect :: bool
  ui_user_query :: "string option"

subsection \<open>Calls that leave the program\<close>

definition call_from_uri ::
  "('h, 'x) env \<Rightarrow> string \<Rightarrow> ('h, 'x) world \<Rightarrow> (exn + 'h) \<times> ('h, 'x) world" where
  "call_from_uri e uri w =
     (let r = db_from_uri e uri (ext w)
      in (fst r, w\<lparr>ext := snd r, trace := trace w @ [EvFromUri uri]\<rparr>))"

definition call_get_table_info ::
  "('h, 'x) env \<Rightarrow> 'h \<Rightarrow> ('h, 'x) world \<Rightarrow> (exn + string) \<times> ('h, 'x) world" where
  "call_get_table_info e d w =
     (let r = db_get_table_info e d (ext w)
      in (fst r, w\<lparr>ext := snd r, trace := trace w @ [EvGetTableInfo d (fst r)]\<rparr>))"

definition call_run ::
  "('h, 'x) env \<Rightarrow> 'h \<Rightarrow> string \<Rightarrow> ('h, 'x) world \<Rightarrow> (exn + string) \<times> ('h, 'x) world" where
  "call_run e d sql w =
     (let r = db_run e d sql (ext w)
      in (fst r, w\<lparr>ext := snd r, trace := trace w @ [EvRun d sql (fst r)]\<rparr>))"

definition call_llm ::
  "('h, 'x) env \<Rightarrow> llm_config \<Rightarrow> string \<Rightarrow> ('h, 'x) world \<Rightarrow> (exn + string) \<times> ('h, 'x) world" where
  "call_llm e c p w =
     (let r = llm_invoke e c p (ext w)
      in (fst r, w\<lparr>ext := snd r, trace := trace w @ [EvInvoke c p (fst r)]\<rparr>))"

text \<open>The part of the log written between two states.\<close>

definition new_events :: "('h, 'x) world \<Rightarrow> ('h, 'x) world \<Rightarrow> 'h event list" where
  "new_events w w' = drop (length (trace w)) (trace w')"

fun is_fetch :: "'h event \<Rightarrow> bool" where
  "is_fetch (EvGetTableInfo d r) = True"
| "is_fetch ev = False"

fun is_invoke :: "'h event \<Rightarrow> bool" where
  "is_invoke (EvInvoke c p r) = True"
| "is_invoke ev = False"

fun is_run :: "'h event \<Rightarrow> bool" where
  "is_run (EvRun d sql r) = True"
| "is_run ev = False"

definition fetch_count :: "'h event list \<Rightarrow> nat" where
  "fetch_count evs = length (filter is_fetch evs)"

definition invoke_count :: "'h event list \<Rightarrow> nat" where
  "invoke_count evs = length (filter is_invoke evs)"

subsection \<open>Python's keyword arguments and \<^verbatim>\<open>str.strip\<close>\<close>

definition quoted :: "string \<Rightarrow> string" where
  "quoted s = [CHR 0x27] @ s @ [CHR 0x27]"

text \<open>A number in decimal, as \<^verbatim>\<open>%i\<close> prints it.\<close>

fun decimal :: "nat \<Rightarrow> string" where
  "decimal n =
     (if n < 10 then [char_of (48 + n)]
      else decimal (n div 10) @ [char_of (48 + n mod 10)])"

declare decimal.simps [simp del]

text \<open>
  The names of the missing parameters as CPython lists them: one name, two names joined
  by \<^verbatim>\<open>and\<close>, or three and more separated by commas with \<^verbatim>\<open>and\<close> before the last.
\<close>

definition missing_names :: "string list \<Rightarrow> string" where
  "missing_names names =
     (case names of
        [] \<Rightarrow> []
      | [a] \<Rightarrow> quoted a
      | [a, b] \<Rightarrow> quoted a @ '' and '' @ quoted b
      | _ \<Rightarrow> concat (map (\<lambda>n. quoted n @ '', '') (butlast names))
             @ ''and '' @ quoted (last names))"

text \<open>
  A call \<^verbatim>\<open>f(k1=v1, ..., kn=vn)\<close> of a function whose parameters \<open>params\<close> have no
  defaults: the first keyword that is not a parameter raises \<^verbatim>\<open>TypeError\<close>; then the
  parameters that got no value raise \<^verbatim>\<open>TypeError\<close>, named in their order; otherwise
  the values are bound, here returned in the order of the parameters. The messages are
  CPython's (up to version 3.12; later versions add a suggestion to the first one).
\<close>

definition bind_keywords :: "string \<Rightarrow> string list \<Rightarrow> (string \<times> 'a) list \<Rightarrow> exn + 'a list" where
  "bind_keywords fname params kwargs =
     (case filter (\<lambda>kv. fst kv \<notin> set params) kwargs of
        kv # _ \<Rightarrow>
          Inl (TypeError (fname @ ''() got an unexpected keyword argument '' @ quoted (fst kv)))
      | [] \<Rightarrow>
          (case those (map (map_of kwargs) params) of
             None \<Rightarrow>
               (let missing = filter (\<lambda>p. map_of kwargs p = None) params
                in Inl (TypeError (fname @ ''() missing '' @ decimal (length missing)
                          @ '' required positional argument''
                          @ (if length missing = 1 then [] else ''s'')
                          @ '': '' @ missing_names missing)))
           | Some vals \<Rightarrow> Inr vals))"

text \<open>
  \<^verbatim>\<open>str.isspace\<close> on one character, for the code points below 256 (a \<open>char\<close> of HOL
  is one of those): tab to carriage return, the four separators 0x1C to 0x1F, the space,
  NEL (0x85) and the no-break space (0xA0). \<^verbatim>\<open>s.strip()\<close> drops such characters from
  both ends.
\<close>

definition is_space :: "char \<Rightarrow> bool" where
  "is_space c = (of_char c \<in> {9, 10, 11, 12, 13, 28, 29, 30, 31, 32, 133, 160 :: nat})"

definition strip :: "string \<Rightarrow> string" where
  "strip s = rev (dropWhile is_space (rev (dropWhile is_space s)))"

subsection \<open>\<^verbatim>\<open>initialize_database_connection\<close>\<close>

definition initialize_database_connection ::
  "('h, 'x) env \<Rightarrow> string \<Rightarrow> string \<Rightarrow> string \<Rightarrow> string \<Rightarrow> string \<Rightarrow> ('h, 'x) world
     \<Rightarrow> (exn + 'h) \<times> ('h, 'x) world" where
  "initialize_database_connection e username password host port database_name w =
     (let db_uri = ''mysql+mysqlconnector://'' @ username @ '':'' @ password @ ''@'' @ host
                     @ '':'' @ port @ ''/'' @ database_name
      in call_from_uri e db_uri w)"

text \<open>The function called with keyword arguments only, as the sidebar does.\<close>

definition initialize_database_connection_kw ::
  "('h, 'x) env \<Rightarrow> (string \<times> string) list \<Rightarrow> ('h, 'x) world \<Rightarrow> (exn + 'h) \<times> ('h, 'x) world" where
  "initialize_database_connection_kw e kwargs w =
     (case bind_keywords ''initialize_database_connection''
             [''username'', ''password'', ''host'', ''port'', ''database_name''] kwargs of
        Inl err \<Rightarrow> (Inl err, w)
      | Inr vals \<Rightarrow>
          (case vals of
             [username, password, host, port, database_name] \<Rightarrow>
               initialize_database_connection e username password host port database_name w
           | _ \<Rightarrow> (Inl (TypeError ''initialize_database_connection()''), w)))"

subsection \<open>The two prompts\<close>

text \<open>
  \<^verbatim>\<open>ChatPromptTemplate.from_template(template)\<close> formatted with its variables: the
  template's text with each \<^verbatim>\<open>{name}\<close> replaced by the value. The text is the source's,
  with its line breaks and its indentation of eight spaces.
\<close>

definition sql_prompt :: "string \<Rightarrow> string \<Rightarrow> string \<Rightarrow> string" where
  "sql_prompt schema chat_history question =
     ''\<newline>        You are a data analyst at a company. You are interacting with a user who is asking you questions about the company's database.\<newline>''
   @ ''        Based on the table schema below, write a SQL query that would answer the user's question. Take the conversation history into account.\<newline>''
   @ ''\<newline>''
   @ ''        <SCHEMA>'' @ schema @ ''</SCHEMA>\<newline>''
   @ ''\<newline>''
   @ ''        Conversation History: '' @ chat_history @ ''\<newline>''
   @ ''\<newline>''
   @ ''        Write only the SQL query and nothing else. Do not wrap the SQL query in any other text, not even backticks.\<newline>''
   @ ''\<newline>''
   @ ''        For example:\<newline>''
   @ ''        Question: which 3 artists have the most tracks?\<newline>''
   @ ''        SQL Query: SELECT ArtistId, COUNT(*) as track_count FROM Track GROUP BY ArtistId ORDER BY track_count DESC LIMIT 3;\<newline>''
   @ ''        Question: Name 10 artists\<newline>''
   @ ''        SQL Query: SELECT Name FROM Artist LIMIT 10;\<newline>''
   @ ''\<newline>''
   @ ''        Your turn:\<newline>''
   @ ''\<newline>''
   @ ''        Question: '' @ question @ ''\<newline>''
   @ ''        SQL Query:\<newline>''
   @ ''        ''"

definition response_prompt :: "string \<Rightarrow> string \<Rightarrow> string \<Rightarrow> string \<Rightarrow> string \<Rightarrow> string" where
  "response_prompt schema chat_history query question response =
     ''\<newline>        You are a data analyst at a company. You are interacting with a user who is asking you questions about the company's database.\<newline>''
   @ ''        Based on the table schema below, question, sql query, and sql response, write a natural language response.\<newline>''
   @ ''        <SCHEMA>'' @ schema @ ''</SCHEMA>\<newline>''
   @ ''\<newline>''
   @ ''        Conversation History: '' @ chat_history @ ''\<newline>''
   @ ''        SQL Query: <SQL>'' @ query @ ''</SQL>\<newline>''
   @ ''        User question: '' @ question @ ''\<newline>''
   @ ''        SQL Response: '' @ response"

text \<open>
  The two \<^verbatim>\<open>llm = ChatGroq(...)\<close> of the source, one in each function. Building the
  client object is taken to succeed; what can fail is the call made through it.
\<close>

definition sql_llm :: llm_config where
  "sql_llm = \<lparr>model = ''mixtral-8x7b-32768'', temperature = 0\<rparr>"

definition response_llm :: llm_config where
  "response_llm = \<lparr>model = ''mixtral-8x7b-32768'', temperature = 0\<rparr>"

subsection \<open>\<^verbatim>\<open>generate_sql_query_chain\<close>\<close>

definition retrieve_schema ::
  "('h, 'x) env \<Rightarrow> 'h \<Rightarrow> ('h, 'x) world \<Rightarrow> (exn + string) \<times> ('h, 'x) world" where
  "retrieve_schema e database w = call_get_table_info e database w"

text \<open>
  The chain \<^verbatim>\<open>RunnablePassthrough.assign(schema=retrieve_schema) | prompt | llm |
  StrOutputParser()\<close>, invoked on \<^verbatim>\<open>{"question": ..., "chat_history": ...}\<close>.
\<close>

definition generate_sql_query_chain ::
  "('h, 'x) env \<Rightarrow> 'h \<Rightarrow> string \<Rightarrow> message list \<Rightarrow> ('h, 'x) world
     \<Rightarrow> (exn + string) \<times> ('h, 'x) world" where
  "generate_sql_query_chain e database question chat_history w =
     (case retrieve_schema e database w of
        (Inl err, w1) \<Rightarrow> (Inl err, w1)
      | (Inr schema, w1) \<Rightarrow>
          call_llm e sql_llm (sql_prompt schema (str_of_history e chat_history) question) w1)"

subsection \<open>\<^verbatim>\<open>generate_response\<close>\<close>

text \<open>
  \<^verbatim>\<open>.assign(schema=lambda _: database.get_table_info(), response=lambda vars:
  database.run(vars["query"]))\<close>: both steps are started, in the scheduler's order, and
  both finish before a result or an exception is taken from them.
\<close>

definition assign_schema_response ::
  "('h, 'x) env \<Rightarrow> 'h \<Rightarrow> string \<Rightarrow> ('h, 'x) world
     \<Rightarrow> (exn + string) \<times> (exn + string) \<times> ('h, 'x) world" where
  "assign_schema_response e database query w =
     (if schema_first e (ext w) then
        (let s = call_get_table_info e database w;
             r = call_run e database query (snd s)
         in (fst s, fst r, snd r))
      else
        (let r = call_run e database query w;
             s = call_get_table_info e database (snd r)
         in (fst s, fst r, snd s)))"

text \<open>
  The whole \<^verbatim>\<open>response_chain.invoke(...)\<close>. The results of the two steps are read in
  the order of the keywords, \<^verbatim>\<open>schema\<close> first, so its exception is the one raised when
  both fail.
\<close>

definition generate_response ::
  "('h, 'x) env \<Rightarrow> string \<Rightarrow> 'h \<Rightarrow> message list \<Rightarrow> ('h, 'x) world
     \<Rightarrow> (exn + string) \<times> ('h, 'x) world" where
  "generate_response e user_query database chat_history w =
     (case generate_sql_query_chain e database user_query chat_history w of
        (Inl err, w1) \<Rightarrow> (Inl err, w1)
      | (Inr query, w1) \<Rightarrow>
          (case assign_schema_response e database query w1 of
             (Inl err, _, w2) \<Rightarrow> (Inl err, w2)
           | (Inr schema, Inl err, w2) \<Rightarrow> (Inl err, w2)
           | (Inr schema, Inr response, w2) \<Rightarrow>
               call_llm e response_llm
                 (response_prompt schema (str_of_history e chat_history) query user_query response)
                 w2))"

subsection \<open>The script\<close>

definition greeting :: message where
  "greeting = AIMessage ''Hello! I'm a SQL assistant. Ask me anything about your database.''"

text \<open>Lines 134 to 137: \<^verbatim>\<open>if "chat_history" not in st.session_state: ...\<close>.\<close>

definition init_chat_history :: "('h, 'x) world \<Rightarrow> ('h, 'x) world" where
  "init_chat_history w =
     (case ss_chat_history w of
        None \<Rightarrow> w\<lparr>ss_chat_history := Some [greeting]\<rparr>
      | Some h \<Rightarrow> w)"

text \<open>\<^verbatim>\<open>st.session_state.chat_history.append(m)\<close>.\<close>

definition append_chat_history ::
  "message \<Rightarrow> ('h, 'x) world \<Rightarrow> (exn + unit) \<times> ('h, 'x) world" where
  "append_chat_history m w =
     (case ss_chat_history w of
        None \<Rightarrow> (Inl (AttributeError ''chat_history''), w)
      | Some h \<Rightarrow> (Inr (), w\<lparr>ss_chat_history := Some (h @ [m])\<rparr>))"

text \<open>Lines 157 to 167: the body of \<^verbatim>\<open>if st.button("Connect"):\<close>.\<close>

definition connect_button ::
  "('h, 'x) env \<Rightarrow> ui_input \<Rightarrow> ('h, 'x) world \<Rightarrow> (exn + unit) \<times> ('h, 'x) world" where
  "connect_button e inp w =
     (case initialize_database_connection_kw e
             [(''user'', ui_user inp), (''password'', ui_password inp), (''host'', ui_host inp),
              (''port'', ui_port inp), (''database'', ui_database inp)] w of
        (Inl err, w1) \<Rightarrow> (Inl err, w1)
      | (Inr db, w1) \<Rightarrow> (Inr (), w1\<lparr>ss_db := Some db\<rparr>))"

text \<open>
  Lines 179 to 193. The arguments of \<^verbatim>\<open>generate_response\<close> are evaluated from the
  left: \<^verbatim>\<open>st.session_state.db\<close> raises \<^verbatim>\<open>AttributeError\<close> when no database was stored.
\<close>

definition handle_user_query ::
  "('h, 'x) env \<Rightarrow> string option \<Rightarrow> ('h, 'x) world \<Rightarrow> (exn + unit) \<times> ('h, 'x) world" where
  "handle_user_query e user_query w =
     (case user_query of
        None \<Rightarrow> (Inr (), w)
      | Some q \<Rightarrow>
          if strip q = [] then (Inr (), w)
          else
            (case append_chat_history (HumanMessage q) w of
               (Inl err, w1) \<Rightarrow> (Inl err, w1)
             | (Inr _, w1) \<Rightarrow>
                 (case ss_db w1 of
                    None \<Rightarrow> (Inl (AttributeError ''db''), w1)
                  | Some database \<Rightarrow>
                      (case ss_chat_history w1 of
                         None \<Rightarrow> (Inl (AttributeError ''chat_history''), w1)
                       | Some chat_history \<Rightarrow>
                           (case generate_response e q database chat_history w1 of
                              (Inl err, w2) \<Rightarrow> (Inl err, w2)
                            | (Inr response, w2) \<Rightarrow>
                                append_chat_history (AIMessage response) w2)))))"

text \<open>
  One run of the script, top to bottom. An exception ends the run; what the run stored
  in the session state before stays. (Streamlit shows the exception; drawing the page
  is not modelled.)
\<close>

definition script_run ::
  "('h, 'x) env \<Rightarrow> ui_input \<Rightarrow> ('h, 'x) world \<Rightarrow> (exn + unit) \<times> ('h, 'x) world" where
  "script_run e inp w =
     (let w0 = init_chat_history w
      in case (if ui_connect inp then connect_button e inp w0 else (Inr (), w0)) of
           (Inl err, w1) \<Rightarrow> (Inl err, w1)
         | (Inr _, w1) \<Rightarrow> handle_user_query e (ui_user_query inp) w1)"

text \<open>A session: the script runs once per interaction, on the state the last run left.\<close>

fun session :: "('h, 'x) env \<Rightarrow> ui_input list \<Rightarrow> ('h, 'x) world \<Rightarrow> ('h, 'x) world" where
  "session e [] w = w"
| "session e (inp # inps) w = session e inps (snd (script_run e inp w))"

text \<open>The conversation starts with the greeting.\<close>

definition seeded :: "('h, 'x) world \<Rightarrow> bool" where
  "seeded w = (case ss_chat_history w of Some (m # rest) \<Rightarrow> m = greeting | _ \<Rightarrow> False)"

subsection \<open>Concrete collaborators, for the examples\<close>

text \<open>
  Stubs on which the theorems below are run. The handle is a number, and so is the
  state of the outside world: in \<open>stub_env\<close> it counts the model's replies, so the
  first reply is a query and the second one an answer.
\<close>

definition stub_str :: "message list \<Rightarrow> string" where
  "stub_str ms =
     concat (map (\<lambda>m. case m of AIMessage s \<Rightarrow> ''AI: '' @ s @ ''; ''
                           | HumanMessage s \<Rightarrow> ''Human: '' @ s @ ''; '') ms)"

definition stub_env :: "(nat, nat) env" where
  "stub_env =
     \<lparr>db_from_uri = (\<lambda>uri x. (Inr 0, x)),
      db_get_table_info = (\<lambda>d x. (Inr ''CREATE TABLE Artist (Name TEXT)'', x)),
      db_run = (\<lambda>d sql x. (Inr ''[(AC/DC,)]'', x)),
      llm_invoke = (\<lambda>c p x.
        (Inr (if x = 0 then ''SELECT Name FROM Artist LIMIT 1;'' else ''The artist is AC/DC.''),
         Suc x)),
      str_of_history = stub_str,
      schema_first = (\<lambda>x. True)\<rparr>"

text \<open>The database rejects every statement.\<close>

definition exec_fail_env :: "(nat, nat) env" where
  "exec_fail_env =
     stub_env\<lparr>db_run := (\<lambda>d sql x. (Inl (ExternalError ''unknown column Foo''), x))\<rparr>"

text \<open>The model service fails on every call.\<close>

definition llm_down_env :: "(nat, nat) env" where
  "llm_down_env =
     stub_env\<lparr>llm_invoke := (\<lambda>c p x. (Inl (ExternalError ''rate limit reached''), x))\<rparr>"

text \<open>
  The statement changes the schema: the world's state is the schema's version, and the
  scheduler lets the statement run before the second fetch.
\<close>

definition alter_env :: "(nat, nat) env" where
  "alter_env =
     \<lparr>db_from_uri = (\<lambda>uri x. (Inr 0, x)),
      db_get_table_info =
        (\<lambda>d x. (Inr (if x = 0 then ''Artist(Name)'' else ''Artist(Name, Born)''), x)),
      db_run = (\<lambda>d sql x. (Inr ''OK'', Suc x)),
      llm_invoke = (\<lambda>c p x. (Inr ''ALTER TABLE Artist ADD Born INT;'', x)),
      str_of_history = stub_str,
      schema_first = (\<lambda>x. False)\<rparr>"

text \<open>A session that has its greeting and a database handle.\<close>

definition connected :: "(nat, nat) world" where
  "connected = \<lparr>ss_chat_history = Some [greeting], ss_db = Some 0, ext = 0, trace = []\<rparr>"

text \<open>A session before the script has run at all.\<close>

definition new_session :: "(nat, nat) world" where
  "new_session = \<lparr>ss_chat_history = None, ss_db = None, ext = 0, trace = []\<rparr>"

text \<open>What the widgets hand to a run: a question typed in, and nothing at all.\<close>

definition ask :: "string \<Rightarrow> ui_input" where
  "ask q = \<lparr>ui_host = ''localhost'', ui_port = ''3306'', ui_user = ''root'',
      ui_password = ''admin'', ui_database = ''Chinook'', ui_connect = False,
      ui_user_query = Some q\<rparr>"

definition idle :: ui_input where
  "idle = \<lparr>ui_host = ''localhost'', ui_port = ''3306'', ui_user = ''root'',
      ui_password = ''admin'', ui_database = ''Chinook'', ui_connect = False,
      ui_user_query = None\<rparr>"

section \<open>Properties\<close>

subsection \<open>What each call does to the state\<close>


lemma call_get_table_info_simps [simp]:
  "fst (call_get_table_info e d w) = fst (db_get_table_info e d (ext w))"
  "ss_chat_history (snd (call_get_table_info e d w)) = ss_chat_history w"
  "ss_db (snd (call_get_table_info e d w)) = ss_db w"
  "ext (snd (call_get_table_info e d w)) = snd (db_get_table_info e d (ext w))"
  "trace (snd (call_get_table_info e d w)) =
     trace w @ [EvGetTableInfo d (fst (db_get_table_info e d (ext w)))]"
  by (simp_all add: call_get_table_info_def Let_def)

lemma call_run_simps [simp]:
  "fst (call_run e d s w) = fst (db_run e d s (ext w))"
  "ss_chat_history (snd (call_run e d s w)) = ss_chat_history w"
  "ss_db (snd (call_run e d s w)) = ss_db w"
  "ext (snd (call_run e d s w)) = snd (db_run e d s (ext w))"
  "trace (snd (call_run e d s w)) = trace w @ [EvRun d s (fst (db_run e d s (ext w)))]"
  by (simp_all add: call_run_def Let_def)

lemma call_llm_simps [simp]:
  "fst (call_llm e c p w) = fst (llm_invoke e c p (ext w))"
  "ss_chat_history (snd (call_llm e c p w)) = ss_chat_history w"
  "ss_db (snd (call_llm e c p w)) = ss_db w"
  "ext (snd (call_llm e c p w)) = snd (llm_invoke e c p (ext w))"
  "trace (snd (call_llm e c p w)) = trace w @ [EvInvoke c p (fst (llm_invoke e c p (ext w)))]"
  by (simp_all add: call_llm_def Let_def)

lemma new_events_append: "trace w' = trace w @ evs \<Longrightarrow> new_events w w' = evs"
  by (simp add: new_events_def)

lemma generate_sql_query_chain_ok:
  assumes "generate_sql_query_chain e d q h w = (Inr sql, w1)"
  shows "\<exists>schema. fst (db_get_table_info e d (ext w)) = Inr schema
           \<and> fst (llm_invoke e sql_llm (sql_prompt schema (str_of_history e h) q)
                    (snd (db_get_table_info e d (ext w)))) = Inr sql
           \<and> trace w1 = trace w @ [EvGetTableInfo d (Inr schema),
                 EvInvoke sql_llm (sql_prompt schema (str_of_history e h) q) (Inr sql)]
           \<and> ext w1 = snd (llm_invoke e sql_llm (sql_prompt schema (str_of_history e h) q)
                    (snd (db_get_table_info e d (ext w))))
           \<and> ss_chat_history w1 = ss_chat_history w \<and> ss_db w1 = ss_db w"
proof (cases "call_get_table_info e d w")
  case (Pair rs wa)
  then have wa: "wa = snd (call_get_table_info e d w)" and rs: "rs = fst (call_get_table_info e d w)"
    by simp_all
  show ?thesis
  proof (cases rs)
    case (Inl err)
    with assms Pair show ?thesis
      by (simp add: generate_sql_query_chain_def retrieve_schema_def)
  next
    case (Inr schema)
    with assms Pair
    have c: "call_llm e sql_llm (sql_prompt schema (str_of_history e h) q) wa = (Inr sql, w1)"
      by (simp add: generate_sql_query_chain_def retrieve_schema_def)
    then have "fst (call_llm e sql_llm (sql_prompt schema (str_of_history e h) q) wa) = Inr sql"
      and "w1 = snd (call_llm e sql_llm (sql_prompt schema (str_of_history e h) q) wa)"
      by simp_all
    with Inr rs wa show ?thesis by simp
  qed
qed

lemma generate_sql_query_chain_err:
  assumes "generate_sql_query_chain e d q h w = (Inl err, w1)"
  shows "ss_chat_history w1 = ss_chat_history w \<and> ss_db w1 = ss_db w
         \<and> (trace w1 = trace w @ [EvGetTableInfo d (Inl err)]
            \<or> (\<exists>schema. trace w1 = trace w @ [EvGetTableInfo d (Inr schema),
                 EvInvoke sql_llm (sql_prompt schema (str_of_history e h) q) (Inl err)]))"
proof (cases "call_get_table_info e d w")
  case (Pair rs wa)
  then have wa: "wa = snd (call_get_table_info e d w)" and rs: "rs = fst (call_get_table_info e d w)"
    by simp_all
  show ?thesis
  proof (cases rs)
    case (Inl err')
    with assms Pair have "err' = err" "w1 = wa"
      by (simp_all add: generate_sql_query_chain_def retrieve_schema_def)
    with Inl rs wa show ?thesis by simp
  next
    case (Inr schema)
    with assms Pair
    have c: "call_llm e sql_llm (sql_prompt schema (str_of_history e h) q) wa = (Inl err, w1)"
      by (simp add: generate_sql_query_chain_def retrieve_schema_def)
    then have "fst (call_llm e sql_llm (sql_prompt schema (str_of_history e h) q) wa) = Inl err"
      and "w1 = snd (call_llm e sql_llm (sql_prompt schema (str_of_history e h) q) wa)"
      by simp_all
    with Inr rs wa show ?thesis by simp
  qed
qed

lemma generate_sql_query_chain_frame:
  assumes "generate_sql_query_chain e d q h w = (r, w1)"
  shows "ss_chat_history w1 = ss_chat_history w \<and> ss_db w1 = ss_db w"
proof (cases r)
  case (Inl err)
  with assms generate_sql_query_chain_err [of e d q h w err w1] show ?thesis by simp
next
  case (Inr sql)
  with assms generate_sql_query_chain_ok [of e d q h w sql w1] show ?thesis by auto
qed

lemma assign_schema_response_shape:
  assumes "assign_schema_response e d sql w1 = (rs, rr, w2)"
  shows "ss_chat_history w2 = ss_chat_history w1 \<and> ss_db w2 = ss_db w1
         \<and> (if schema_first e (ext w1)
            then rs = fst (db_get_table_info e d (ext w1))
               \<and> trace w2 = trace w1 @ [EvGetTableInfo d rs, EvRun d sql rr]
            else rs = fst (db_get_table_info e d (snd (db_run e d sql (ext w1))))
               \<and> trace w2 = trace w1 @ [EvRun d sql rr, EvGetTableInfo d rs])"
  using assms by (auto simp: assign_schema_response_def Let_def prod_eq_iff split: if_splits)


lemma generate_response_cases:
  assumes "generate_response e q d h w = (r, w')"
  obtains
    (gen_failed) err where
      "generate_sql_query_chain e d q h w = (Inl err, w')" "r = Inl err"
  | (step_failed) sql w1 rs rr err where
      "generate_sql_query_chain e d q h w = (Inr sql, w1)"
      "assign_schema_response e d sql w1 = (rs, rr, w')"
      "r = Inl err" "rs = Inl err \<or> (\<exists>schema. rs = Inr schema \<and> rr = Inl err)"
  | (synthesis) sql w1 schema response w2 where
      "generate_sql_query_chain e d q h w = (Inr sql, w1)"
      "assign_schema_response e d sql w1 = (Inr schema, Inr response, w2)"
      "call_llm e response_llm (response_prompt schema (str_of_history e h) sql q response) w2
         = (r, w')"
  using assms unfolding generate_response_def
  by (auto split: prod.splits sum.splits)

lemma generate_response_frame:
  assumes "generate_response e q d h w = (r, w')"
  shows "ss_chat_history w' = ss_chat_history w \<and> ss_db w' = ss_db w"
  using assms
proof (cases rule: generate_response_cases)
  case (gen_failed err)
  then show ?thesis using generate_sql_query_chain_frame [of e d q h w "Inl err" w'] by simp
next
  case (step_failed sql w1 rs rr err)
  then show ?thesis
    using generate_sql_query_chain_frame [of e d q h w "Inr sql" w1]
      assign_schema_response_shape [of e d sql w1 rs rr w'] by simp
next
  case (synthesis sql w1 schema response w2)
  from synthesis(3) have "w' = snd (call_llm e response_llm
      (response_prompt schema (str_of_history e h) sql q response) w2)" by simp
  then show ?thesis
    using generate_sql_query_chain_frame [OF synthesis(1)]
      assign_schema_response_shape [OF synthesis(2)] by simp
qed

lemma handle_user_query_cases:
  assumes "handle_user_query e uq w = (r, w')"
  obtains
    (noop) "r = Inr ()" "w' = w" "uq = None \<or> (\<exists>q. uq = Some q \<and> strip q = [])"
  | (no_history) q where
      "uq = Some q" "strip q \<noteq> []" "ss_chat_history w = None" "w' = w"
      "r = Inl (AttributeError ''chat_history'')"
  | (no_db) q h where
      "uq = Some q" "strip q \<noteq> []" "ss_chat_history w = Some h" "ss_db w = None"
      "w' = w\<lparr>ss_chat_history := Some (h @ [HumanMessage q])\<rparr>"
      "r = Inl (AttributeError ''db'')"
  | (failed) q h d err where
      "uq = Some q" "strip q \<noteq> []" "ss_chat_history w = Some h" "ss_db w = Some d"
      "generate_response e q d (h @ [HumanMessage q])
         (w\<lparr>ss_chat_history := Some (h @ [HumanMessage q])\<rparr>) = (Inl err, w')"
      "r = Inl err"
  | (answered) q h d a w2 where
      "uq = Some q" "strip q \<noteq> []" "ss_chat_history w = Some h" "ss_db w = Some d"
      "generate_response e q d (h @ [HumanMessage q])
         (w\<lparr>ss_chat_history := Some (h @ [HumanMessage q])\<rparr>) = (Inr a, w2)"
      "w' = w2\<lparr>ss_chat_history := Some (h @ [HumanMessage q, AIMessage a])\<rparr>"
      "r = Inr ()"
proof (cases uq)
  case None
  show ?thesis
    by (rule noop) (use assms None in \<open>simp_all add: handle_user_query_def\<close>)
next
  case (Some q)
  show ?thesis
  proof (cases "strip q = []")
    case True
    show ?thesis
      by (rule noop) (use assms Some True in \<open>simp_all add: handle_user_query_def\<close>)
  next
    case nb: False
    show ?thesis
    proof (cases "ss_chat_history w")
      case None
      show ?thesis
        by (rule no_history [of q])
          (use assms Some nb None in
            \<open>simp_all add: handle_user_query_def append_chat_history_def\<close>)
    next
      case h: (Some h)
      let ?w1 = "w\<lparr>ss_chat_history := Some (h @ [HumanMessage q])\<rparr>"
      show ?thesis
      proof (cases "ss_db w")
        case None
        show ?thesis
          by (rule no_db [of q h])
            (use assms Some nb h None in
              \<open>simp_all add: handle_user_query_def append_chat_history_def\<close>)
      next
        case d: (Some d)
        obtain r2 w2 where g: "generate_response e q d (h @ [HumanMessage q]) ?w1 = (r2, w2)"
          by (cases "generate_response e q d (h @ [HumanMessage q]) ?w1")
        from generate_response_frame [OF g]
        have fr: "ss_chat_history w2 = Some (h @ [HumanMessage q])" by simp
        have eq: "handle_user_query e uq w =
                    (case r2 of Inl err \<Rightarrow> (Inl err, w2)
                     | Inr response \<Rightarrow> append_chat_history (AIMessage response) w2)"
          using Some nb h d g
          by (simp add: handle_user_query_def append_chat_history_def split: sum.splits)
        show ?thesis
        proof (cases r2)
          case (Inl err)
          show ?thesis
            by (rule failed [of q h d err]) (use assms eq Some nb h d g Inl in simp_all)
        next
          case (Inr a)
          show ?thesis
            by (rule answered [of q h d a w2])
              (use assms eq Some nb h d g fr Inr in \<open>simp_all add: append_chat_history_def\<close>)
        qed
      qed
    qed
  qed
qed

subsection \<open>Blank input\<close>

lemma strip_blank: "list_all is_space s \<Longrightarrow> strip s = []"
  by (auto simp: strip_def list_all_iff dest: set_dropWhileD)

text \<open>
  Claim C10. A submitted input that is \<^verbatim>\<open>None\<close>, or a string of whitespace only
  (the empty string included), leaves the turn handler without any effect: the state
  it returns is the state it got, so no turn was appended and the log of calls to the
  database and the model did not grow.
\<close>

theorem blank_query_is_noop:
  assumes "user_query = None \<or> (\<exists>q. user_query = Some q \<and> list_all is_space q)"
  shows "handle_user_query e user_query w = (Inr (), w)"
  using assms by (auto simp: handle_user_query_def strip_blank)

theorem blank_query_is_noop_witness:
  "list_all is_space [CHR '' '', CHR 0x09, CHR 0x0A]
   \<and> handle_user_query stub_env (Some [CHR '' '', CHR 0x09, CHR 0x0A]) connected = (Inr (), connected)
   \<and> handle_user_query stub_env None connected = (Inr (), connected)"
proof -
  have sp: "list_all is_space [CHR '' '', CHR 0x09, CHR 0x0A]"
    by (simp add: is_space_def)
  show ?thesis
    using sp blank_query_is_noop [of "Some [CHR '' '', CHR 0x09, CHR 0x0A]" stub_env connected]
      blank_query_is_noop [of None stub_env connected]
    by simp
qed

subsection \<open>The Connect button\<close>

lemma bind_keywords_connect:
  "bind_keywords f [''username'', ''password'', ''host'', ''port'', ''database_name'']
     [(''user'', a), (''password'', b), (''host'', c), (''port'', d), (''database'', g)]
   = Inl (TypeError (f @ ''() got an unexpected keyword argument '' @ quoted ''user''))"
  by (simp add: bind_keywords_def)

lemma connect_button_eq:
  "connect_button e inp w =
     (Inl (TypeError (''initialize_database_connection() got an unexpected keyword argument ''
        @ quoted ''user'')), w)"
  by (simp add: connect_button_def initialize_database_connection_kw_def bind_keywords_connect)

lemma handle_user_query_db:
  "ss_db (snd (handle_user_query e uq w)) = ss_db w"
proof -
  obtain r w' where h: "handle_user_query e uq w = (r, w')"
    by (cases "handle_user_query e uq w")
  then have "ss_db w' = ss_db w"
  proof (cases rule: handle_user_query_cases)
    case (failed q h d err)
    from generate_response_frame [OF failed(5)] show ?thesis by simp
  next
    case (answered q h d a w2)
    from generate_response_frame [OF answered(5)] answered(6) show ?thesis by simp
  qed simp_all
  with h show ?thesis by simp
qed

lemma script_run_db: "ss_db (snd (script_run e inp w)) = ss_db w"
  by (simp add: script_run_def Let_def connect_button_eq handle_user_query_db init_chat_history_def
      split: option.splits)

lemma session_db: "ss_db (session e inps w) = ss_db w"
  by (induction inps arbitrary: w) (simp_all add: script_run_db)

text \<open>
  Claim C9. The sidebar calls \<^verbatim>\<open>initialize_database_connection\<close> with the keywords
  \<^verbatim>\<open>user\<close> and \<^verbatim>\<open>database\<close>, which are not among its parameters, so every press of
  Connect raises \<^verbatim>\<open>TypeError\<close> for the keyword \<^verbatim>\<open>user\<close>. The state is returned as it
  was: nothing was logged, so \<^verbatim>\<open>SQLDatabase.from_uri\<close> was not reached, and
  \<^verbatim>\<open>st.session_state.db\<close> was not assigned. The run of the script ends there, and no
  sequence of runs ever changes \<^verbatim>\<open>st.session_state.db\<close>.
\<close>

theorem connect_raises_type_error:
  "connect_button e inp w =
     (Inl (TypeError (''initialize_database_connection() got an unexpected keyword argument ''
        @ quoted ''user'')), w)
   \<and> script_run e (inp\<lparr>ui_connect := True\<rparr>) w =
       (Inl (TypeError (''initialize_database_connection() got an unexpected keyword argument ''
        @ quoted ''user'')), init_chat_history w)
   \<and> ss_db (session e inps w) = ss_db w"
  by (simp add: connect_button_eq session_db script_run_def)

theorem connect_raises_type_error_witness:
  "fst (connect_button stub_env
     \<lparr>ui_host = ''localhost'', ui_port = ''3306'', ui_user = ''root'', ui_password = ''admin'',
      ui_database = ''Chinook'', ui_connect = True, ui_user_query = None\<rparr> new_session)
   = Inl (TypeError (''initialize_database_connection() got an unexpected keyword argument ''
         @ [CHR 0x27] @ ''user'' @ [CHR 0x27]))
   \<and> trace (snd (connect_button stub_env
     \<lparr>ui_host = ''localhost'', ui_port = ''3306'', ui_user = ''root'', ui_password = ''admin'',
      ui_database = ''Chinook'', ui_connect = True, ui_user_query = None\<rparr> new_session)) = []
   \<and> ss_db (snd (connect_button stub_env
     \<lparr>ui_host = ''localhost'', ui_port = ''3306'', ui_user = ''root'', ui_password = ''admin'',
      ui_database = ''Chinook'', ui_connect = True, ui_user_query = None\<rparr> new_session)) = None"
  using connect_raises_type_error [of stub_env
     "\<lparr>ui_host = ''localhost'', ui_port = ''3306'', ui_user = ''root'', ui_password = ''admin'',
      ui_database = ''Chinook'', ui_connect = True, ui_user_query = None\<rparr>" new_session "[]"]
  by (simp add: new_session_def quoted_def)

subsection \<open>The pipeline reads the history only\<close>

text \<open>
  Claim C8. \<^verbatim>\<open>generate_response\<close> leaves \<^verbatim>\<open>st.session_state.chat_history\<close> (and
  \<^verbatim>\<open>st.session_state.db\<close>) as it found them, for every question, database, history
  and behaviour of the collaborators, and whether it returns an answer or raises.
\<close>

theorem generate_response_keeps_history:
  "ss_chat_history (snd (generate_response e user_query database chat_history w)) = ss_chat_history w
   \<and> ss_db (snd (generate_response e user_query database chat_history w)) = ss_db w"
  using generate_response_frame [of e user_query database chat_history w
      "fst (generate_response e user_query database chat_history w)"
      "snd (generate_response e user_query database chat_history w)"]
  by simp

theorem generate_response_keeps_history_witness:
  "ss_chat_history (snd (generate_response stub_env ''Name an artist'' 0
      [greeting, HumanMessage ''Name an artist'']
      (connected\<lparr>ss_chat_history := Some [greeting, HumanMessage ''Name an artist'']\<rparr>)))
   = Some [greeting, HumanMessage ''Name an artist'']"
  using generate_response_keeps_history [of stub_env "''Name an artist''" 0
      "[greeting, HumanMessage ''Name an artist'']"
      "connected\<lparr>ss_chat_history := Some [greeting, HumanMessage ''Name an artist'']\<rparr>"]
  by (simp add: connected_def)

subsection \<open>The conversation only grows\<close>

lemma handle_user_query_history:
  assumes "ss_chat_history w = Some h"
  shows "\<exists>h'. ss_chat_history (snd (handle_user_query e uq w)) = Some (h @ h')"
proof -
  obtain r w' where hq: "handle_user_query e uq w = (r, w')"
    by (cases "handle_user_query e uq w")
  then have "\<exists>h'. ss_chat_history w' = Some (h @ h')"
  proof (cases rule: handle_user_query_cases)
    case noop
    with assms show ?thesis by simp
  next
    case (no_history q)
    with assms show ?thesis by simp
  next
    case (no_db q h0)
    with assms show ?thesis by simp
  next
    case (failed q h0 d err)
    from generate_response_frame [OF failed(5)] failed(3) assms show ?thesis by simp
  next
    case (answered q h0 d a w2)
    with assms show ?thesis by simp
  qed
  with hq show ?thesis by simp
qed

lemma script_run_eq:
  "script_run e inp w =
     (if ui_connect inp
      then (Inl (TypeError (''initialize_database_connection() got an unexpected keyword argument ''
              @ quoted ''user'')), init_chat_history w)
      else handle_user_query e (ui_user_query inp) (init_chat_history w))"
  by (simp add: script_run_def connect_button_eq)

lemma script_run_history:
  assumes "ss_chat_history w = Some h"
  shows "\<exists>h'. ss_chat_history (snd (script_run e inp w)) = Some (h @ h')"
proof -
  from assms have i: "init_chat_history w = w" by (simp add: init_chat_history_def)
  show ?thesis
  proof (cases "ui_connect inp")
    case True
    with i assms show ?thesis by (simp add: script_run_eq)
  next
    case False
    with i handle_user_query_history [OF assms, of e "ui_user_query inp"] show ?thesis
      by (simp add: script_run_eq)
  qed
qed

lemma session_history:
  "ss_chat_history w = Some h \<Longrightarrow> \<exists>h'. ss_chat_history (session e inps w) = Some (h @ h')"
proof (induction inps arbitrary: w h)
  case Nil
  then show ?case by simp
next
  case (Cons inp inps)
  from script_run_history [OF Cons.prems, of e inp]
  obtain h1 where h1: "ss_chat_history (snd (script_run e inp w)) = Some (h @ h1)" by blast
  from Cons.IH [OF h1]
  obtain h2 where "ss_chat_history (session e inps (snd (script_run e inp w))) = Some ((h @ h1) @ h2)"
    by blast
  then show ?case by simp
qed

lemma script_run_answered:
  assumes h: "ss_chat_history w = Some h" and q: "ui_user_query inp = Some q" "strip q \<noteq> []"
    and ok: "script_run e inp w = (Inr u, w')"
  shows "\<exists>a. ss_chat_history w' = Some (h @ [HumanMessage q, AIMessage a])"
proof -
  from h have i: "init_chat_history w = w" by (simp add: init_chat_history_def)
  from ok i have nc: "\<not> ui_connect inp" and hq: "handle_user_query e (Some q) w = (Inr u, w')"
    using q by (simp_all add: script_run_eq split: if_splits)
  from hq show ?thesis
  proof (cases rule: handle_user_query_cases)
    case noop
    with q show ?thesis by simp
  next
    case (answered q0 h0 d a w2)
    with h show ?thesis by simp
  qed simp_all
qed

text \<open>
  Claim C6. The conversation is append-only. Over any sequence of runs of the script
  the history that was there stays, in its order, as a prefix of the history afterwards
  (so its length never decreases and no stored turn is removed, moved or changed); and
  a run that handles a non-blank question and ends without an exception has appended
  exactly the User turn with that question followed by one Assistant turn.
\<close>

theorem chat_history_append_only:
  assumes "ss_chat_history w = Some h"
  shows "(\<exists>h'. ss_chat_history (session e inps w) = Some (h @ h'))
       \<and> (\<forall>inp q u w'. ui_user_query inp = Some q \<and> strip q \<noteq> [] \<and> script_run e inp w = (Inr u, w')
            \<longrightarrow> (\<exists>a. ss_chat_history w' = Some (h @ [HumanMessage q, AIMessage a])))"
  using session_history [OF assms] script_run_answered [OF assms] by blast

lemma strip_hi: "strip ''hi'' = ''hi''"
  by (simp add: strip_def is_space_def)

lemmas stub_defs = stub_env_def exec_fail_env_def llm_down_env_def alter_env_def
  connected_def new_session_def ask_def

lemmas run_defs = script_run_eq handle_user_query_def append_chat_history_def
  init_chat_history_def generate_response_def generate_sql_query_chain_def retrieve_schema_def
  assign_schema_response_def call_get_table_info_def call_run_def call_llm_def Let_def

lemma stub_turn:
  "script_run stub_env (ask ''hi'') connected =
     (Inr (),
      \<lparr>ss_chat_history = Some [greeting, HumanMessage ''hi'', AIMessage ''The artist is AC/DC.''],
       ss_db = Some 0, ext = 2,
       trace =
        [EvGetTableInfo 0 (Inr ''CREATE TABLE Artist (Name TEXT)''),
         EvInvoke sql_llm
           (sql_prompt ''CREATE TABLE Artist (Name TEXT)''
              (stub_str [greeting, HumanMessage ''hi'']) ''hi'')
           (Inr ''SELECT Name FROM Artist LIMIT 1;''),
         EvGetTableInfo 0 (Inr ''CREATE TABLE Artist (Name TEXT)''),
         EvRun 0 ''SELECT Name FROM Artist LIMIT 1;'' (Inr ''[(AC/DC,)]''),
         EvInvoke response_llm
           (response_prompt ''CREATE TABLE Artist (Name TEXT)''
              (stub_str [greeting, HumanMessage ''hi'']) ''SELECT Name FROM Artist LIMIT 1;''
              ''hi'' ''[(AC/DC,)]'')
           (Inr ''The artist is AC/DC.'')]\<rparr>)"
  by (simp add: stub_defs run_defs strip_hi)

theorem chat_history_append_only_witness:
  "ss_chat_history connected = Some [greeting]
   \<and> ss_chat_history (session stub_env [ask ''hi''] connected)
       = Some ([greeting] @ [HumanMessage ''hi'', AIMessage ''The artist is AC/DC.''])"
  using chat_history_append_only [of connected "[greeting]" stub_env "[ask ''hi'']"] stub_turn
  by (simp add: connected_def)

subsection \<open>The greeting comes first\<close>

lemma script_run_seeded:
  assumes "ss_chat_history w = None \<or> seeded w"
  shows "seeded (snd (script_run e inp w))"
proof -
  from assms obtain rest where i: "ss_chat_history (init_chat_history w) = Some (greeting # rest)"
    by (auto simp: init_chat_history_def seeded_def split: option.splits list.splits)
  have ii: "init_chat_history (init_chat_history w) = init_chat_history w"
    by (simp add: init_chat_history_def split: option.splits)
  have "script_run e inp w = script_run e inp (init_chat_history w)"
    by (simp add: script_run_eq ii)
  with script_run_history [OF i, of e inp] show ?thesis
    by (auto simp: seeded_def)
qed

lemma session_seeded: "seeded w \<Longrightarrow> seeded (session e inps w)"
  by (induction inps arbitrary: w) (simp_all add: script_run_seeded)

text \<open>
  Claim C7. In a session that starts with no conversation stored, after the first run
  of the script and after every later one the history is non-empty and its first turn is
  the greeting; after a first run without a question (before the first user turn) the
  history is the greeting alone.
\<close>

theorem chat_history_starts_with_greeting:
  assumes "ss_chat_history w = None"
  shows "seeded (session e (inp # inps) w)
       \<and> (ui_user_query inp = None \<longrightarrow> ss_chat_history (session e [inp] w) = Some [greeting])"
proof -
  from assms have "seeded (snd (script_run e inp w))" by (simp add: script_run_seeded)
  then have "seeded (session e (inp # inps) w)" by (simp add: session_seeded)
  moreover from assms
  have "ui_user_query inp = None \<longrightarrow> ss_chat_history (session e [inp] w) = Some [greeting]"
    by (simp add: script_run_eq handle_user_query_def init_chat_history_def)
  ultimately show ?thesis by blast
qed

theorem chat_history_starts_with_greeting_witness:
  "ss_chat_history new_session = None
   \<and> seeded (session stub_env [idle, ask ''hi''] new_session)
   \<and> ss_chat_history (session stub_env [idle] new_session) = Some [greeting]
   \<and> ss_chat_history (session stub_env [idle, ask ''hi''] new_session)
       = Some [greeting, HumanMessage ''hi'']"
proof -
  have n: "ss_chat_history new_session = None" by (simp add: new_session_def)
  have "ss_chat_history (session stub_env [idle, ask ''hi''] new_session)
       = Some [greeting, HumanMessage ''hi'']"
    by (simp add: stub_defs idle_def run_defs strip_hi)
  with n chat_history_starts_with_greeting [OF n, of stub_env idle "[ask ''hi'']"]
  show ?thesis by (simp add: idle_def)
qed

subsection \<open>The log of a turn\<close>

lemma assign_schema_response_events:
  assumes "assign_schema_response e d sql w1 = (rs, rr, w2)"
  obtains evs where
    "evs = [EvGetTableInfo d rs, EvRun d sql rr] \<or> evs = [EvRun d sql rr, EvGetTableInfo d rs]"
    "trace w2 = trace w1 @ evs"
  using assign_schema_response_shape [OF assms] by (cases "schema_first e (ext w1)") simp_all

lemma generate_response_events:
  assumes "generate_response e q d h w = (r, w')"
  obtains
    (ev_fetch_failed) err where
      "generate_sql_query_chain e d q h w = (Inl err, w')"
      "r = Inl err" "trace w' = trace w @ [EvGetTableInfo d (Inl err)]"
  | (ev_generation_failed) schema err where
      "generate_sql_query_chain e d q h w = (Inl err, w')"
      "r = Inl err"
      "trace w' = trace w @ [EvGetTableInfo d (Inr schema),
         EvInvoke sql_llm (sql_prompt schema (str_of_history e h) q) (Inl err)]"
  | (ev_step_failed) schema sql w1 rs rr err evs where
      "generate_sql_query_chain e d q h w = (Inr sql, w1)"
      "assign_schema_response e d sql w1 = (rs, rr, w')"
      "r = Inl err" "rs = Inl err \<or> (\<exists>s. rs = Inr s \<and> rr = Inl err)"
      "evs = [EvGetTableInfo d rs, EvRun d sql rr] \<or> evs = [EvRun d sql rr, EvGetTableInfo d rs]"
      "trace w1 = trace w @ [EvGetTableInfo d (Inr schema),
         EvInvoke sql_llm (sql_prompt schema (str_of_history e h) q) (Inr sql)]"
      "trace w' = trace w1 @ evs"
  | (ev_synthesized) schema sql w1 schema2 response w2 evs where
      "generate_sql_query_chain e d q h w = (Inr sql, w1)"
      "assign_schema_response e d sql w1 = (Inr schema2, Inr response, w2)"
      "evs = [EvGetTableInfo d (Inr schema2), EvRun d sql (Inr response)]
         \<or> evs = [EvRun d sql (Inr response), EvGetTableInfo d (Inr schema2)]"
      "trace w1 = trace w @ [EvGetTableInfo d (Inr schema),
         EvInvoke sql_llm (sql_prompt schema (str_of_history e h) q) (Inr sql)]"
      "trace w' = trace w1 @ evs
         @ [EvInvoke response_llm
              (response_prompt schema2 (str_of_history e h) sql q response) r]"
  using assms
proof (cases rule: generate_response_cases)
  case (gen_failed err)
  from generate_sql_query_chain_err [OF gen_failed(1)]
  consider "trace w' = trace w @ [EvGetTableInfo d (Inl err)]"
    | schema where "trace w' = trace w @ [EvGetTableInfo d (Inr schema),
         EvInvoke sql_llm (sql_prompt schema (str_of_history e h) q) (Inl err)]"
    by blast
  then show ?thesis
  proof cases
    case 1
    with gen_failed show ?thesis by (rule ev_fetch_failed)
  next
    case 2
    with gen_failed show ?thesis by (rule ev_generation_failed)
  qed
next
  case (step_failed sql w1 rs rr err)
  from generate_sql_query_chain_ok [OF step_failed(1)] obtain schema where
    t1: "trace w1 = trace w @ [EvGetTableInfo d (Inr schema),
           EvInvoke sql_llm (sql_prompt schema (str_of_history e h) q) (Inr sql)]"
    by blast
  from step_failed(2) obtain evs where
    evs: "evs = [EvGetTableInfo d rs, EvRun d sql rr] \<or> evs = [EvRun d sql rr, EvGetTableInfo d rs]"
    and t2: "trace w' = trace w1 @ evs"
    by (rule assign_schema_response_events)
  from step_failed evs t1 t2 show ?thesis by (rule ev_step_failed)
next
  case (synthesis sql w1 schema2 response w2)
  from generate_sql_query_chain_ok [OF synthesis(1)] obtain schema where
    t1: "trace w1 = trace w @ [EvGetTableInfo d (Inr schema),
           EvInvoke sql_llm (sql_prompt schema (str_of_history e h) q) (Inr sql)]"
    by blast
  from synthesis(2) obtain evs where
    evs: "evs = [EvGetTableInfo d (Inr schema2), EvRun d sql (Inr response)]
         \<or> evs = [EvRun d sql (Inr response), EvGetTableInfo d (Inr schema2)]"
    and t2: "trace w2 = trace w1 @ evs"
    by (rule assign_schema_response_events)
  from synthesis(3) have
    "r = fst (call_llm e response_llm
           (response_prompt schema2 (str_of_history e h) sql q response) w2)"
    "w' = snd (call_llm e response_llm
           (response_prompt schema2 (str_of_history e h) sql q response) w2)"
    by simp_all
  then have "trace w' = trace w2 @ [EvInvoke response_llm
              (response_prompt schema2 (str_of_history e h) sql q response) r]"
    by simp
  with t2 have t3: "trace w' = trace w1 @ evs @ [EvInvoke response_llm
              (response_prompt schema2 (str_of_history e h) sql q response) r]"
    by simp
  from synthesis(1,2) evs t1 t3 show ?thesis by (rule ev_synthesized)
qed

lemma handle_user_query_events:
  assumes "handle_user_query e uq w = (r, w')"
  obtains
    (hq_quiet) "trace w' = trace w"
  | (hq_failed) q h d err w1 where
      "uq = Some q" "strip q \<noteq> []" "ss_chat_history w = Some h" "ss_db w = Some d"
      "trace w1 = trace w"
      "generate_response e q d (h @ [HumanMessage q]) w1 = (Inl err, w')"
      "r = Inl err" "ss_chat_history w' = Some (h @ [HumanMessage q])" "ss_db w' = ss_db w"
  | (hq_answered) q h d a w1 w2 where
      "uq = Some q" "strip q \<noteq> []" "ss_chat_history w = Some h" "ss_db w = Some d"
      "trace w1 = trace w"
      "generate_response e q d (h @ [HumanMessage q]) w1 = (Inr a, w2)"
      "r = Inr ()" "ss_chat_history w' = Some (h @ [HumanMessage q, AIMessage a])"
      "trace w' = trace w2"
  using assms
proof (cases rule: handle_user_query_cases)
  case noop
  then show ?thesis using hq_quiet by simp
next
  case (no_history q)
  then show ?thesis using hq_quiet by simp
next
  case (no_db q h)
  then show ?thesis using hq_quiet by simp
next
  case (failed q h d err)
  let ?w1 = "w\<lparr>ss_chat_history := Some (h @ [HumanMessage q])\<rparr>"
  have t: "trace ?w1 = trace w" by simp
  from generate_response_frame [OF failed(5)]
  have "ss_chat_history w' = Some (h @ [HumanMessage q])" "ss_db w' = ss_db w" by simp_all
  with failed t show ?thesis using hq_failed [of q h d ?w1 err] by blast
next
  case (answered q h d a w2)
  let ?w1 = "w\<lparr>ss_chat_history := Some (h @ [HumanMessage q])\<rparr>"
  have t: "trace ?w1 = trace w" by simp
  from answered(6) have "ss_chat_history w' = Some (h @ [HumanMessage q, AIMessage a])"
    "trace w' = trace w2" by simp_all
  with answered t show ?thesis using hq_answered [of q h d ?w1 a w2] by blast
qed

lemma connected_fields:
  "ss_chat_history connected = Some [greeting]" "ss_db connected = Some 0"
  "ext connected = 0" "trace connected = []"
  by (simp_all add: connected_def)

subsection \<open>A failed model call\<close>




lemma llm_down_turn:
  "handle_user_query llm_down_env (Some ''hi'') connected =
     (Inl (ExternalError ''rate limit reached''),
      \<lparr>ss_chat_history = Some [greeting, HumanMessage ''hi''], ss_db = Some 0, ext = 0,
       trace =
        [EvGetTableInfo 0 (Inr ''CREATE TABLE Artist (Name TEXT)''),
         EvInvoke sql_llm
           (sql_prompt ''CREATE TABLE Artist (Name TEXT)''
              (stub_str [greeting, HumanMessage ''hi'']) ''hi'')
           (Inl (ExternalError ''rate limit reached''))]\<rparr>)"
  by (simp add: stub_defs run_defs strip_hi)


subsection \<open>A failed statement\<close>

lemma exec_fail_turn:
  "handle_user_query exec_fail_env (Some ''hi'') connected =
     (Inl (ExternalError ''unknown column Foo''),
      \<lparr>ss_chat_history = Some [greeting, HumanMessage ''hi''], ss_db = Some 0, ext = 1,
       trace =
        [EvGetTableInfo 0 (Inr ''CREATE TABLE Artist (Name TEXT)''),
         EvInvoke sql_llm
           (sql_prompt ''CREATE TABLE Artist (Name TEXT)''
              (stub_str [greeting, HumanMessage ''hi'']) ''hi'')
           (Inr ''SELECT Name FROM Artist LIMIT 1;''),
         EvGetTableInfo 0 (Inr ''CREATE TABLE Artist (Name TEXT)''),
         EvRun 0 ''SELECT Name FROM Artist LIMIT 1;''
           (Inl (ExternalError ''unknown column Foo''))]\<rparr>)"
  by (simp add: stub_defs run_defs strip_hi)

text \<open>
  Claim C1, as stated, fails. The database rejects the generated statement with
  "unknown column Foo": the turn handler ends with that exception, the conversation
  holds the User turn and no Assistant turn, the statement's failure is the last entry
  of the log, and the model was called once only, for the query; no second prompt was
  built from the error.
\<close>

theorem sql_failure_not_absorbed:
  "fst (handle_user_query exec_fail_env (Some ''hi'') connected)
     = Inl (ExternalError ''unknown column Foo'')
   \<and> ss_chat_history (snd (handle_user_query exec_fail_env (Some ''hi'') connected))
     = Some [greeting, HumanMessage ''hi'']
   \<and> filter is_run (trace (snd (handle_user_query exec_fail_env (Some ''hi'') connected)))
     = [EvRun 0 ''SELECT Name FROM Artist LIMIT 1;'' (Inl (ExternalError ''unknown column Foo''))]
   \<and> invoke_count (trace (snd (handle_user_query exec_fail_env (Some ''hi'') connected))) = 1
   \<and> last (trace (snd (handle_user_query exec_fail_env (Some ''hi'') connected)))
     = EvRun 0 ''SELECT Name FROM Artist LIMIT 1;'' (Inl (ExternalError ''unknown column Foo''))"
  by (simp add: exec_fail_turn invoke_count_def)

text \<open>
  Claim C1, amended. The source has no handler for exceptions, so a statement that
  fails ends the turn like any other failure: the turn handler ends with an exception,
  the conversation afterwards is the old one followed by the User turn alone, and the
  model was called exactly once in the turn, for the query: the answer is never
  synthesized. The exception that ends the turn is the statement's own, unless the schema
  fetch started together with the statement failed as well: then it is the fetch's.
\<close>

theorem sql_failure_aborts_turn:
  assumes h: "ss_chat_history w = Some h"
    and hq: "handle_user_query e uq w = (r, w')"
    and fail: "EvRun d sql (Inl err) \<in> set (new_events w w')"
  shows "(\<exists>err'. r = Inl err')
       \<and> (\<exists>q. uq = Some q \<and> ss_chat_history w' = Some (h @ [HumanMessage q]))
       \<and> invoke_count (new_events w w') = 1
       \<and> (r = Inl err
          \<or> (\<exists>err'. r = Inl err' \<and> EvGetTableInfo d (Inl err') \<in> set (new_events w w')))"
  using hq
proof (cases rule: handle_user_query_events)
  case hq_quiet
  with fail show ?thesis by (simp add: new_events_def)
next
  case (hq_failed q h0 d0 err0 w1)
  note tw = hq_failed(5)
  from hq_failed(6)
  have "invoke_count (new_events w w') = 1
      \<and> (err0 = err \<or> EvGetTableInfo d (Inl err0) \<in> set (new_events w w'))"
  proof (cases rule: generate_response_events)
    case (ev_fetch_failed err1)
    with fail tw show ?thesis by (simp add: new_events_def)
  next
    case (ev_generation_failed schema err1)
    with fail tw show ?thesis by (simp add: new_events_def)
  next
    case (ev_step_failed schema sql0 w2 rs rr err1 evs)
    with tw have n: "new_events w w' = [EvGetTableInfo d0 (Inr schema),
         EvInvoke sql_llm (sql_prompt schema (str_of_history e (h0 @ [HumanMessage q])) q) (Inr sql0)]
         @ evs"
      by (simp add: new_events_def)
    from n ev_step_failed(5) have ic: "invoke_count (new_events w w') = 1"
      by (auto simp: invoke_count_def)
    from n fail ev_step_failed(5) have dr: "d0 = d" "rr = Inl err" by auto
    from ev_step_failed(3) have e01: "err1 = err0" by simp
    from ev_step_failed(4) dr e01 have "err0 = err \<or> rs = Inl err0" by auto
    moreover from n ev_step_failed(5) dr
    have "EvGetTableInfo d rs \<in> set (new_events w w')" by auto
    ultimately have "err0 = err \<or> EvGetTableInfo d (Inl err0) \<in> set (new_events w w')"
      by auto
    with ic show ?thesis by simp
  next
    case (ev_synthesized schema sql0 w2 schema2 response w3 evs)
    with fail tw show ?thesis by (auto simp: new_events_def)
  qed
  with hq_failed h show ?thesis by simp
next
  case (hq_answered q h0 d0 a w1 w2)
  note tw = hq_answered(5,9)
  from hq_answered(6) have False
  proof (cases rule: generate_response_events)
    case (ev_synthesized schema sql0 w3 schema2 response w4 evs)
    with fail tw show ?thesis by (auto simp: new_events_def)
  qed simp_all
  then show ?thesis ..
qed

theorem sql_failure_aborts_turn_witness:
  "fst (handle_user_query exec_fail_env (Some ''hi'') connected)
     = Inl (ExternalError ''unknown column Foo'')
   \<and> ss_chat_history (snd (handle_user_query exec_fail_env (Some ''hi'') connected))
     = Some ([greeting] @ [HumanMessage ''hi''])
   \<and> invoke_count (new_events connected
        (snd (handle_user_query exec_fail_env (Some ''hi'') connected))) = 1"
proof -
  let ?w' = "snd (handle_user_query exec_fail_env (Some ''hi'') connected)"
  have h: "ss_chat_history connected = Some [greeting]" by (simp add: connected_def)
  have hq: "handle_user_query exec_fail_env (Some ''hi'') connected
      = (fst (handle_user_query exec_fail_env (Some ''hi'') connected), ?w')"
    by simp
  have f: "EvRun 0 ''SELECT Name FROM Artist LIMIT 1;'' (Inl (ExternalError ''unknown column Foo''))
             \<in> set (new_events connected ?w')"
    by (simp add: exec_fail_turn new_events_def connected_fields)
  have nf: "\<forall>err'. EvGetTableInfo 0 (Inl err') \<notin> set (new_events connected ?w')"
    by (simp add: exec_fail_turn new_events_def connected_fields)
  from sql_failure_aborts_turn [OF h hq f] nf show ?thesis by auto
qed

subsection \<open>The generated query reaches the database as it is\<close>



lemma alter_generation:
  "generate_sql_query_chain alter_env 0 ''hi'' [greeting] connected =
     (Inr ''ALTER TABLE Artist ADD Born INT;'',
      connected\<lparr>trace := [EvGetTableInfo 0 (Inr ''Artist(Name)''),
         EvInvoke sql_llm (sql_prompt ''Artist(Name)'' (stub_str [greeting]) ''hi'')
           (Inr ''ALTER TABLE Artist ADD Born INT;'')]\<rparr>)"
  by (simp add: stub_defs run_defs)

lemma alter_response:
  "generate_response alter_env ''hi'' 0 [greeting] connected =
     (Inr ''ALTER TABLE Artist ADD Born INT;'',
      connected\<lparr>ext := 1, trace := [EvGetTableInfo 0 (Inr ''Artist(Name)''),
         EvInvoke sql_llm (sql_prompt ''Artist(Name)'' (stub_str [greeting]) ''hi'')
           (Inr ''ALTER TABLE Artist ADD Born INT;''),
         EvRun 0 ''ALTER TABLE Artist ADD Born INT;'' (Inr ''OK''),
         EvGetTableInfo 0 (Inr ''Artist(Name, Born)''),
         EvInvoke response_llm
           (response_prompt ''Artist(Name, Born)'' (stub_str [greeting])
              ''ALTER TABLE Artist ADD Born INT;'' ''hi'' ''OK'')
           (Inr ''ALTER TABLE Artist ADD Born INT;'')]\<rparr>)"
  by (simp add: stub_defs run_defs)


subsection \<open>The schema is fetched for each prompt\<close>

text \<open>
  Claim C4, as stated, fails: it counts two fetches on every user turn. When the model
  fails while the query is generated, the turn ends after the first fetch.
\<close>

theorem one_fetch_when_generation_fails:
  "fst (script_run llm_down_env (ask ''hi'') connected) = Inl (ExternalError ''rate limit reached'')
   \<and> fetch_count (new_events connected (snd (script_run llm_down_env (ask ''hi'') connected))) = 1"
proof -
  have "script_run llm_down_env (ask ''hi'') connected
      = handle_user_query llm_down_env (Some ''hi'') connected"
    by (simp add: script_run_eq ask_def init_chat_history_def connected_fields)
  then show ?thesis
    by (simp add: llm_down_turn new_events_def fetch_count_def connected_fields)
qed

lemma schema_fetched_when_generated:
  assumes gen: "generate_sql_query_chain e d q h w = (Inr sql, w1)"
    and gr: "generate_response e q d h w = (r, w')"
  shows "fetch_count (new_events w w') = 2
       \<and> (\<exists>schema. fst (db_get_table_info e d (ext w)) = Inr schema
             \<and> new_events w w1 = [EvGetTableInfo d (Inr schema),
                  EvInvoke sql_llm (sql_prompt schema (str_of_history e h) q) (Inr sql)])
       \<and> (let x = (if schema_first e (ext w1) then ext w1 else snd (db_run e d sql (ext w1)))
          in filter is_fetch (new_events w1 w') = [EvGetTableInfo d (fst (db_get_table_info e d x))]
           \<and> (\<forall>answer. r = Inr answer \<longrightarrow>
                (\<exists>schema2 response. fst (db_get_table_info e d x) = Inr schema2
                   \<and> last (new_events w1 w') = EvInvoke response_llm
                        (response_prompt schema2 (str_of_history e h) sql q response)
                        (Inr answer))))"
proof -
  define x where "x = (if schema_first e (ext w1) then ext w1 else snd (db_run e d sql (ext w1)))"
  from generate_sql_query_chain_ok [OF gen] obtain schema where
    s: "fst (db_get_table_info e d (ext w)) = Inr schema"
    and t1: "trace w1 = trace w @ [EvGetTableInfo d (Inr schema),
           EvInvoke sql_llm (sql_prompt schema (str_of_history e h) q) (Inr sql)]"
    by blast
  from t1 have a: "new_events w w1 = [EvGetTableInfo d (Inr schema),
           EvInvoke sql_llm (sql_prompt schema (str_of_history e h) q) (Inr sql)]"
    by (rule new_events_append)
  have rest: "filter is_fetch (new_events w1 w') = [EvGetTableInfo d (fst (db_get_table_info e d x))]
       \<and> (\<forall>answer. r = Inr answer \<longrightarrow>
                (\<exists>schema2 response. fst (db_get_table_info e d x) = Inr schema2
                   \<and> last (new_events w1 w') = EvInvoke response_llm
                        (response_prompt schema2 (str_of_history e h) sql q response)
                        (Inr answer)))"
    using gr
  proof (cases rule: generate_response_events)
    case (ev_fetch_failed err)
    with gen show ?thesis by simp
  next
    case (ev_generation_failed schema err)
    with gen show ?thesis by simp
  next
    case (ev_step_failed schema0 sql0 w10 rs rr err evs)
    with gen have eq: "sql0 = sql" "w10 = w1" by simp_all
    from assign_schema_response_shape [OF ev_step_failed(2)] eq
    have rs: "rs = fst (db_get_table_info e d x)" by (simp add: x_def split: if_splits)
    from ev_step_failed(5,7) eq rs ev_step_failed(3) show ?thesis
      by (auto simp: new_events_def)
  next
    case (ev_synthesized schema0 sql0 w10 schema2 response w2 evs)
    with gen have eq: "sql0 = sql" "w10 = w1" by simp_all
    from assign_schema_response_shape [OF ev_synthesized(2)] eq
    have rs: "Inr schema2 = fst (db_get_table_info e d x)" by (simp add: x_def split: if_splits)
    from ev_synthesized(5) eq have n: "new_events w1 w' = evs @ [EvInvoke response_llm
              (response_prompt schema2 (str_of_history e h) sql q response) r]"
      by (simp add: new_events_def)
    from n ev_synthesized(3) rs
    have f: "filter is_fetch (new_events w1 w') = [EvGetTableInfo d (fst (db_get_table_info e d x))]"
      by auto
    from n have l: "last (new_events w1 w') = EvInvoke response_llm
              (response_prompt schema2 (str_of_history e h) sql q response) r"
      by simp
    from rs have "fst (db_get_table_info e d x) = Inr schema2" by simp
    with f l show ?thesis by blast
  qed
  have tw: "\<exists>evs. trace w' = trace w1 @ evs"
    using gr
  proof (cases rule: generate_response_events)
    case (ev_fetch_failed err)
    with gen show ?thesis by simp
  next
    case (ev_generation_failed schema err)
    with gen show ?thesis by simp
  next
    case (ev_step_failed schema0 sql0 w10 rs rr err evs)
    with gen show ?thesis by simp
  next
    case (ev_synthesized schema0 sql0 w10 schema2 response w2 evs)
    with gen show ?thesis by simp
  qed
  then obtain evs where evs: "trace w' = trace w1 @ evs" by blast
  then have n1: "new_events w1 w' = evs" by (rule new_events_append)
  from evs t1 have "new_events w w' = [EvGetTableInfo d (Inr schema),
           EvInvoke sql_llm (sql_prompt schema (str_of_history e h) q) (Inr sql)] @ evs"
    by (simp add: new_events_def)
  with rest n1 have c: "fetch_count (new_events w w') = 2"
    by (simp add: fetch_count_def)
  from c s a rest show ?thesis unfolding x_def Let_def by blast
qed

lemma one_fetch_when_generation_failed:
  assumes gen: "generate_sql_query_chain e d q h w = (Inl err, w1)"
    and gr: "generate_response e q d h w = (r, w')"
  shows "r = Inl err \<and> w' = w1 \<and> fetch_count (new_events w w') = 1"
proof -
  from gen gr have rw: "r = Inl err" "w' = w1" by (simp_all add: generate_response_def)
  from generate_sql_query_chain_err [OF gen]
  consider "trace w1 = trace w @ [EvGetTableInfo d (Inl err)]"
    | schema where "trace w1 = trace w @ [EvGetTableInfo d (Inr schema),
         EvInvoke sql_llm (sql_prompt schema (str_of_history e h) q) (Inl err)]"
    by blast
  then have "fetch_count (new_events w w1) = 1"
    by cases (simp_all add: new_events_def fetch_count_def)
  with rw show ?thesis by simp
qed

text \<open>
  Claim C4, amended. Nothing is kept from one schema fetch to the next. In a call of
  \<^verbatim>\<open>generate_response\<close> whose query was generated, the schema is fetched exactly
  twice. The first fetch reads the database as it is when the call starts, and its text
  is the one in the query prompt. The second reads the database as it is when the
  scheduler runs it (before or after the statement), and its text is the one in the
  answer prompt whenever an answer is returned. In a call whose query generation fails
  (the schema fetch or the model call raises), that exception ends the call in the
  state generation left, after exactly one fetch.
\<close>

theorem schema_fetched_for_each_prompt:
  assumes gr: "generate_response e q d h w = (r, w')"
  shows "(\<forall>sql w1. generate_sql_query_chain e d q h w = (Inr sql, w1) \<longrightarrow>
            fetch_count (new_events w w') = 2
          \<and> (\<exists>schema. fst (db_get_table_info e d (ext w)) = Inr schema
                \<and> new_events w w1 = [EvGetTableInfo d (Inr schema),
                     EvInvoke sql_llm (sql_prompt schema (str_of_history e h) q) (Inr sql)])
          \<and> (let x = (if schema_first e (ext w1) then ext w1 else snd (db_run e d sql (ext w1)))
             in filter is_fetch (new_events w1 w')
                  = [EvGetTableInfo d (fst (db_get_table_info e d x))]
              \<and> (\<forall>answer. r = Inr answer \<longrightarrow>
                   (\<exists>schema2 response. fst (db_get_table_info e d x) = Inr schema2
                      \<and> last (new_events w1 w') = EvInvoke response_llm
                           (response_prompt schema2 (str_of_history e h) sql q response)
                           (Inr answer)))))
       \<and> (\<forall>err w1. generate_sql_query_chain e d q h w = (Inl err, w1) \<longrightarrow>
            r = Inl err \<and> w' = w1 \<and> fetch_count (new_events w w') = 1)"
proof (intro conjI allI impI)
  fix sql w1
  assume gen: "generate_sql_query_chain e d q h w = (Inr sql, w1)"
  note s = schema_fetched_when_generated [OF gen gr]
  from s show "fetch_count (new_events w w') = 2" by (rule conjunct1)
  from s show "\<exists>schema. fst (db_get_table_info e d (ext w)) = Inr schema
                \<and> new_events w w1 = [EvGetTableInfo d (Inr schema),
                     EvInvoke sql_llm (sql_prompt schema (str_of_history e h) q) (Inr sql)]"
    by (rule conjunct2 [THEN conjunct1])
  from s show "let x = (if schema_first e (ext w1) then ext w1 else snd (db_run e d sql (ext w1)))
             in filter is_fetch (new_events w1 w')
                  = [EvGetTableInfo d (fst (db_get_table_info e d x))]
              \<and> (\<forall>answer. r = Inr answer \<longrightarrow>
                   (\<exists>schema2 response. fst (db_get_table_info e d x) = Inr schema2
                      \<and> last (new_events w1 w') = EvInvoke response_llm
                           (response_prompt schema2 (str_of_history e h) sql q response)
                           (Inr answer)))"
    by (rule conjunct2 [THEN conjunct2])
next
  fix err w1
  assume gen: "generate_sql_query_chain e d q h w = (Inl err, w1)"
  note f = one_fetch_when_generation_failed [OF gen gr]
  from f show "r = Inl err" by (rule conjunct1)
  from f show "w' = w1" by (rule conjunct2 [THEN conjunct1])
  from f show "fetch_count (new_events w w') = 1" by (rule conjunct2 [THEN conjunct2])
qed

lemma llm_down_generation:
  "generate_sql_query_chain llm_down_env 0 ''hi'' [greeting] connected =
     (Inl (ExternalError ''rate limit reached''),
      connected\<lparr>trace := [EvGetTableInfo 0 (Inr ''CREATE TABLE Artist (Name TEXT)''),
         EvInvoke sql_llm
           (sql_prompt ''CREATE TABLE Artist (Name TEXT)'' (stub_str [greeting]) ''hi'')
           (Inl (ExternalError ''rate limit reached''))]\<rparr>)"
  by (simp add: stub_defs run_defs)

theorem schema_fetched_for_each_prompt_witness:
  "fetch_count (new_events connected (snd (generate_response alter_env ''hi'' 0 [greeting] connected))) = 2
   \<and> filter is_fetch (trace (snd (generate_response alter_env ''hi'' 0 [greeting] connected)))
       = [EvGetTableInfo 0 (Inr ''Artist(Name)''), EvGetTableInfo 0 (Inr ''Artist(Name, Born)'')]
   \<and> filter is_invoke (trace (snd (generate_response alter_env ''hi'' 0 [greeting] connected)))
       = [EvInvoke sql_llm (sql_prompt ''Artist(Name)'' (stub_str [greeting]) ''hi'')
           (Inr ''ALTER TABLE Artist ADD Born INT;''),
          EvInvoke response_llm
           (response_prompt ''Artist(Name, Born)'' (stub_str [greeting])
              ''ALTER TABLE Artist ADD Born INT;'' ''hi'' ''OK'')
           (Inr ''ALTER TABLE Artist ADD Born INT;'')]
   \<and> fst (generate_response llm_down_env ''hi'' 0 [greeting] connected)
       = Inl (ExternalError ''rate limit reached'')
   \<and> fetch_count (new_events connected
        (snd (generate_response llm_down_env ''hi'' 0 [greeting] connected))) = 1"
proof -
  have ok: "fetch_count (new_events connected
      (snd (generate_response alter_env ''hi'' 0 [greeting] connected))) = 2"
    using schema_fetched_for_each_prompt [OF alter_response, THEN conjunct1, rule_format,
        OF alter_generation]
    by (simp add: alter_response)
  have gr: "generate_response llm_down_env ''hi'' 0 [greeting] connected
      = (fst (generate_response llm_down_env ''hi'' 0 [greeting] connected),
         snd (generate_response llm_down_env ''hi'' 0 [greeting] connected))"
    by simp
  note f = schema_fetched_for_each_prompt [OF gr, THEN conjunct2, rule_format,
        OF llm_down_generation]
  have a: "filter is_fetch (trace (snd (generate_response alter_env ''hi'' 0 [greeting] connected)))
       = [EvGetTableInfo 0 (Inr ''Artist(Name)''), EvGetTableInfo 0 (Inr ''Artist(Name, Born)'')]"
    by (simp add: alter_response connected_fields)
  have b: "filter is_invoke (trace (snd (generate_response alter_env ''hi'' 0 [greeting] connected)))
       = [EvInvoke sql_llm (sql_prompt ''Artist(Name)'' (stub_str [greeting]) ''hi'')
           (Inr ''ALTER TABLE Artist ADD Born INT;''),
          EvInvoke response_llm
           (response_prompt ''Artist(Name, Born)'' (stub_str [greeting])
              ''ALTER TABLE Artist ADD Born INT;'' ''hi'' ''OK'')
           (Inr ''ALTER TABLE Artist ADD Born INT;'')]"
    by (simp add: alter_response connected_fields)
  show ?thesis
    apply (intro conjI)
        apply (rule ok)
       apply (rule a)
      apply (rule b)
     apply (rule f [THEN conjunct1])
    apply (rule f [THEN conjunct2, THEN conjunct2])
    done
qed

subsection \<open>Generation is a function of its inputs\<close>

lemma generate_sql_query_chain_fst:
  "fst (generate_sql_query_chain e d q h w) =
     (case fst (db_get_table_info e d (ext w)) of
        Inl err \<Rightarrow> Inl err
      | Inr schema \<Rightarrow>
          fst (llm_invoke e sql_llm (sql_prompt schema (str_of_history e h) q)
                 (snd (db_get_table_info e d (ext w)))))"
  by (simp add: generate_sql_query_chain_def retrieve_schema_def case_prod_beta
      split: sum.splits)

text \<open>
  Claim C5. Both model configurations of the source have temperature 0. If the model
  is deterministic at temperature 0 (its reply depends on the prompt only, not on the
  state it is called in), then two runs of the query chain with the same question and
  history, in any two states in which the schema fetch returns the same text, return
  the same output.
\<close>

theorem sql_generation_deterministic:
  assumes det: "\<forall>c p x x'. temperature c = 0 \<longrightarrow> fst (llm_invoke e c p x) = fst (llm_invoke e c p x')"
    and s1: "fst (db_get_table_info e d (ext w)) = Inr schema"
    and s2: "fst (db_get_table_info e d (ext w')) = Inr schema"
  shows "temperature sql_llm = 0 \<and> temperature response_llm = 0
       \<and> fst (generate_sql_query_chain e d q h w) = fst (generate_sql_query_chain e d q h w')"
proof -
  have t: "temperature sql_llm = 0" "temperature response_llm = 0"
    by (simp_all add: sql_llm_def response_llm_def)
  from det t(1) have
    "fst (llm_invoke e sql_llm (sql_prompt schema (str_of_history e h) q)
            (snd (db_get_table_info e d (ext w))))
     = fst (llm_invoke e sql_llm (sql_prompt schema (str_of_history e h) q)
            (snd (db_get_table_info e d (ext w'))))"
    by blast
  with s1 s2 have "fst (generate_sql_query_chain e d q h w) = fst (generate_sql_query_chain e d q h w')"
    by (simp add: generate_sql_query_chain_fst)
  with t show ?thesis by simp
qed

theorem sql_generation_deterministic_witness:
  "fst (generate_sql_query_chain alter_env 0 ''hi'' [greeting] connected)
     = fst (generate_sql_query_chain alter_env 0 ''hi'' [greeting]
              (snd (generate_sql_query_chain alter_env 0 ''hi'' [greeting] connected)))
   \<and> fst (generate_sql_query_chain alter_env 0 ''hi'' [greeting] connected)
     = Inr ''ALTER TABLE Artist ADD Born INT;''"
proof -
  let ?w' = "snd (generate_sql_query_chain alter_env 0 ''hi'' [greeting] connected)"
  have det: "\<forall>c p x x'. temperature c = 0 \<longrightarrow>
      fst (llm_invoke alter_env c p x) = fst (llm_invoke alter_env c p x')"
    by (simp add: alter_env_def)
  have s1: "fst (db_get_table_info alter_env 0 (ext connected)) = Inr ''Artist(Name)''"
    by (simp add: alter_env_def connected_fields)
  have s2: "fst (db_get_table_info alter_env 0 (ext ?w')) = Inr ''Artist(Name)''"
    by (simp add: alter_generation connected_fields) (simp add: alter_env_def)
  from sql_generation_deterministic [OF det s1 s2, of "''hi''" "[greeting]"] alter_generation
  show ?thesis by simp
qed

subsection \<open>What the script alone can reach\<close>

lemma script_run_unconnected:
  assumes "ss_db w = None"
  shows "trace (snd (script_run e inp w)) = trace w \<and> ss_db (snd (script_run e inp w)) = None"
proof -
  let ?w0 = "init_chat_history w"
  have w0: "ss_db ?w0 = None" "trace ?w0 = trace w"
    using assms by (simp_all add: init_chat_history_def split: option.splits)
  obtain r w' where hq: "handle_user_query e (ui_user_query inp) ?w0 = (r, w')"
    by (cases "handle_user_query e (ui_user_query inp) ?w0")
  then have "trace w' = trace ?w0"
  proof (cases rule: handle_user_query_events)
    case hq_quiet
    then show ?thesis .
  next
    case (hq_failed q h d err w1)
    with w0 show ?thesis by simp
  next
    case (hq_answered q h d a w1 w2)
    with w0 show ?thesis by simp
  qed
  with hq w0 have "trace (snd (script_run e inp w)) = trace w"
    by (simp add: script_run_eq)
  with assms show ?thesis by (simp add: script_run_db)
qed

lemma session_unconnected:
  "ss_db w = None \<Longrightarrow> trace (session e inps w) = trace w \<and> ss_db (session e inps w) = None"
proof (induction inps arbitrary: w)
  case Nil
  then show ?case by simp
next
  case (Cons inp inps)
  from script_run_unconnected [OF Cons.prems, of e inp]
  have 1: "trace (snd (script_run e inp w)) = trace w" "ss_db (snd (script_run e inp w)) = None"
    by simp_all
  from Cons.IH [OF 1(2)] 1(1) show ?case by simp
qed

lemma script_run_no_db:
  assumes db: "ss_db w = None" and q: "ui_user_query inp = Some q" "strip q \<noteq> []"
    and nc: "\<not> ui_connect inp"
  shows "fst (script_run e inp w) = Inl (AttributeError ''db'')"
proof -
  let ?w0 = "init_chat_history w"
  have w0: "ss_db ?w0 = None" "ss_chat_history ?w0 \<noteq> None"
    using db by (simp_all add: init_chat_history_def split: option.splits)
  obtain r w' where hq: "handle_user_query e (Some q) ?w0 = (r, w')"
    by (cases "handle_user_query e (Some q) ?w0")
  then have "r = Inl (AttributeError ''db'')"
  proof (cases rule: handle_user_query_cases)
    case noop
    with q show ?thesis by simp
  next
    case (no_history q0)
    with w0 show ?thesis by simp
  next
    case (no_db q0 h)
    then show ?thesis by simp
  next
    case (failed q0 h d err)
    with w0 show ?thesis by simp
  next
    case (answered q0 h d a w2)
    with w0 show ?thesis by simp
  qed
  with hq q nc show ?thesis by (simp add: script_run_eq)
qed

text \<open>
  A consequence of C9. Connect is the only place that stores a database handle, and it
  always raises first. So in a session that starts without a handle no run of the script
  ever calls the database or the model, and every non-blank question ends in the
  \<^verbatim>\<open>AttributeError\<close> of \<^verbatim>\<open>st.session_state.db\<close>, after its User turn was appended.
  The theorems about the pipeline above hold of \<^verbatim>\<open>generate_response\<close> and of the turn
  handler in every state, and so in the states that have a handle.
\<close>

theorem pipeline_unreachable_from_script:
  assumes "ss_db w = None"
  shows "trace (session e inps w) = trace w \<and> ss_db (session e inps w) = None
       \<and> (\<forall>inp q. ui_user_query inp = Some q \<and> strip q \<noteq> [] \<and> \<not> ui_connect inp \<longrightarrow>
            fst (script_run e inp (session e inps w)) = Inl (AttributeError ''db''))"
  using session_unconnected [OF assms, of e inps] script_run_no_db [of "session e inps w"]
  by blast

theorem pipeline_unreachable_from_script_witness:
  "ss_db new_session = None
   \<and> trace (session stub_env [idle, ask ''hi''] new_session) = []
   \<and> fst (script_run stub_env (ask ''hi'') (session stub_env [idle, ask ''hi''] new_session))
       = Inl (AttributeError ''db'')"
proof -
  have n: "ss_db new_session = None" "trace new_session = []" by (simp_all add: new_session_def)
  have a: "ui_user_query (ask ''hi'') = Some ''hi''" "\<not> ui_connect (ask ''hi'')"
    by (simp_all add: ask_def)
  from pipeline_unreachable_from_script [OF n(1), of stub_env "[idle, ask ''hi'']"] n a strip_hi
  show ?thesis by simp
qed

end
